theory Spec2Isabelle
  imports Complex_Main
begin

section \<open>Python values shared by both source files\<close>

text \<open>
  The exceptions the two files can raise. \<open>Exception_msbuild\<close> is the
  \<^verbatim>\<open>Exception("Msbuild.exe not found at the following locations:\n%s\n..." % options)\<close>
  of \<^verbatim>\<open>checkMSBuildPath\<close>; it carries the list that the format string prints.
  \<open>OSError\<close> is a child process that could not be started.
\<close>

datatype error =
    NameError
  | FileNotFoundError
  | IndexError
  | ValueError
  | OSError
  | AssertionError
  | Exception_msbuild "string list"
  | Exception_main

abbreviation LF :: char where "LF \<equiv> CHR 0x0A"
abbreviation CR :: char where "CR \<equiv> CHR 0x0D"
abbreviation sep :: char where "sep \<equiv> CHR ''/''"

text \<open>
  \<^verbatim>\<open>os.path.join\<close> in its POSIX flavour: a component that starts with the
  separator discards what came before it; the separator is inserted only when the
  path so far is non-empty and does not already end with one.
\<close>

definition join2 :: "string \<Rightarrow> string \<Rightarrow> string" where
  "join2 path b =
     (if b \<noteq> [] \<and> hd b = sep then b
      else if path = [] \<or> last path = sep then path @ b
      else path @ [sep] @ b)"

definition os_path_join :: "string \<Rightarrow> string list \<Rightarrow> string" where
  "os_path_join a ps = foldl join2 a ps"

section \<open>seedot/predictor.py\<close>

subsection \<open>The world a Predictor acts on\<close>

type_synonym env = "string \<Rightarrow> string option"
type_synonym fsys = "string \<Rightarrow> string option"

text \<open>
  \<open>files\<close> maps a path to the text of the file there, \<open>environ\<close> is
  \<^verbatim>\<open>os.environ\<close>, \<open>spawned\<close> lists the child processes started so far
  (argument vector and environment), \<open>console\<close> is what was printed.
\<close>

record world =
  files :: fsys
  environ :: env
  spawned :: "(string list \<times> env) list"
  console :: string

text \<open>
  A child process is outside the program: given its arguments, its environment, the
  file its standard output goes to and the file system, it either cannot be started
  (\<open>None\<close>) or exits with a return code, leaving a file system behind.
\<close>

type_synonym child = "string list \<Rightarrow> env \<Rightarrow> string \<Rightarrow> fsys \<Rightarrow> int option \<times> fsys"

text \<open>The module globals of \<^verbatim>\<open>seedot.common\<close> and the host test of \<^verbatim>\<open>seedot.util\<close>.\<close>

record common =
  msbuildPath :: string
  gccPath :: "string option"
  mingw :: bool
  windows :: bool

record predictor =
  algo :: string
  version :: string
  datasetType :: string
  outputDir :: string

definition pyprint :: "string \<Rightarrow> world \<Rightarrow> world" where
  "pyprint s w = w\<lparr>console := console w @ s @ [LF]\<rparr>"

definition pyprint_noend :: "string \<Rightarrow> world \<Rightarrow> world" where
  "pyprint_noend s w = w\<lparr>console := console w @ s\<rparr>"

text \<open>\<^verbatim>\<open>open(logFile, 'w')\<close>: the file is created, or emptied if it was there.\<close>

definition open_w :: "string \<Rightarrow> world \<Rightarrow> world" where
  "open_w p w = w\<lparr>files := (files w)(p \<mapsto> [])\<rparr>"

text \<open>\<^verbatim>\<open>subprocess.call(args, stdout=file, env=e)\<close>.\<close>

definition subprocess_call ::
  "child \<Rightarrow> string list \<Rightarrow> env \<Rightarrow> string \<Rightarrow> world \<Rightarrow> (error + int) \<times> world" where
  "subprocess_call ch args e logFile w =
     (let w1 = w\<lparr>spawned := spawned w @ [(args, e)]\<rparr>
      in case ch args e logFile (files w1) of
           (None, fs) \<Rightarrow> (Inl OSError, w1\<lparr>files := fs\<rparr>)
         | (Some rc, fs) \<Rightarrow> (Inr rc, w1\<lparr>files := fs\<rparr>))"

text \<open>
  The tail every build function ends with:
  \<^verbatim>\<open>if process == 1: print("FAILED!!\n"); return False
  else: print("success"); return True\<close>
\<close>

definition build_outcome :: "(error + int) \<times> world \<Rightarrow> (error + bool) \<times> world" where
  "build_outcome r =
     (case r of
        (Inl e, w) \<Rightarrow> (Inl e, w)
      | (Inr process, w) \<Rightarrow>
          (if process = 1 then (Inr False, pyprint (''FAILED!!'' @ [LF]) w)
           else (Inr True, pyprint ''success'' w)))"

definition buildForWindows :: "child \<Rightarrow> common \<Rightarrow> predictor \<Rightarrow> world \<Rightarrow> (error + bool) \<times> world" where
  "buildForWindows ch cm self w =
     (let w1 = pyprint_noend ''Build...'' w;
          projFile = ''Predictor.vcxproj'';
          args = [msbuildPath cm, projFile, ''/t:Build'',
                  ''/p:Configuration=Release'', ''/p:Platform=x64''];
          logFile = os_path_join (outputDir self) [''msbuild.txt''];
          w2 = open_w logFile w1
      in build_outcome (subprocess_call ch args (environ w2) logFile w2))"

definition buildForLinux :: "child \<Rightarrow> common \<Rightarrow> predictor \<Rightarrow> world \<Rightarrow> (error + bool) \<times> world" where
  "buildForLinux ch cm self w =
     (let w1 = pyprint_noend ''Build...'' w;
          args = [''make''];
          logFile = os_path_join (outputDir self) [''msbuild.txt''];
          w2 = open_w logFile w1
      in build_outcome (subprocess_call ch args (environ w2) logFile w2))"

text \<open>
  \<^verbatim>\<open>buildForMingw\<close>. The environment is a copy of \<^verbatim>\<open>os.environ\<close>. When
  \<^verbatim>\<open>Common.gccPath\<close> is neither \<^verbatim>\<open>None\<close> nor empty, the source evaluates
  \<^verbatim>\<open>gccPath+';'+os.environ['PATH']\<close>: the bare name \<^verbatim>\<open>gccPath\<close> is bound
  nowhere in the module, so its lookup, the first thing evaluated, raises
  \<^verbatim>\<open>NameError\<close>.
\<close>

definition buildForMingw :: "child \<Rightarrow> common \<Rightarrow> predictor \<Rightarrow> world \<Rightarrow> (error + bool) \<times> world" where
  "buildForMingw ch cm self w =
     (let my_env = environ w
      in if gccPath cm \<noteq> None \<and> gccPath cm \<noteq> Some [] then (Inl NameError, w)
         else
           (let args = [''mimg32-make.exe''];
                logFile = os_path_join (outputDir self) [''gccbuild.txt''];
                w2 = open_w logFile w
            in build_outcome (subprocess_call ch args my_env logFile w2)))"

definition build :: "child \<Rightarrow> common \<Rightarrow> predictor \<Rightarrow> world \<Rightarrow> (error + bool) \<times> world" where
  "build ch cm self w =
     (if windows cm then
        (if mingw cm then buildForMingw ch cm self w else buildForWindows ch cm self w)
      else buildForLinux ch cm self w)"

subsection \<open>Reading the statistics file\<close>

text \<open>
  Text mode with universal newlines: \<^verbatim>\<open>\r\n\<close> and \<^verbatim>\<open>\r\<close> are read as
  \<^verbatim>\<open>\n\<close>; \<^verbatim>\<open>readlines\<close> cuts after every \<^verbatim>\<open>\n\<close> and keeps it.
\<close>

fun translate_nl :: "string \<Rightarrow> string" where
  "translate_nl [] = []"
| "translate_nl [c] = (if c = CR then [LF] else [c])"
| "translate_nl (c # d # cs) =
     (if c = CR then (if d = LF then LF # translate_nl cs else LF # translate_nl (d # cs))
      else c # translate_nl (d # cs))"

fun lines_from :: "string \<Rightarrow> string \<Rightarrow> string list" where
  "lines_from acc [] = (if acc = [] then [] else [acc])"
| "lines_from acc (c # cs) =
     (if c = LF then (acc @ [c]) # lines_from [] cs else lines_from (acc @ [c]) cs)"

definition readlines :: "string \<Rightarrow> string list" where
  "readlines content = lines_from [] (translate_nl content)"

text \<open>The characters \<^verbatim>\<open>str.isspace\<close> accepts below code point 256.\<close>

definition whitespace :: "char list" where
  "whitespace = [CHR 0x09, CHR 0x0A, CHR 0x0B, CHR 0x0C, CHR 0x0D,
                 CHR 0x1C, CHR 0x1D, CHR 0x1E, CHR 0x1F, CHR 0x20, CHR 0x85, CHR 0xA0]"

definition isspace :: "char \<Rightarrow> bool" where
  "isspace c = (c \<in> set whitespace)"

definition strip :: "string \<Rightarrow> string" where
  "strip s = rev (dropWhile isspace (rev (dropWhile isspace s)))"

definition statsFile :: "predictor \<Rightarrow> string" where
  "statsFile self =
     os_path_join ''output''
       [algo self @ ''-'' @ version self, ''stats-'' @ datasetType self @ ''.txt'']"

text \<open>
  \<^verbatim>\<open>readStatsFile\<close>. The built-in \<^verbatim>\<open>float\<close> is the parameter \<open>pyfloat\<close>:
  \<open>None\<close> where it raises \<^verbatim>\<open>ValueError\<close>. A missing file makes \<^verbatim>\<open>open\<close> raise,
  an empty one makes \<^verbatim>\<open>stats[0]\<close> raise.
\<close>

definition readStatsFile :: "(string \<Rightarrow> 'f option) \<Rightarrow> predictor \<Rightarrow> world \<Rightarrow> error + 'f" where
  "readStatsFile pyfloat self w =
     (case files w (statsFile self) of
        None \<Rightarrow> Inl FileNotFoundError
      | Some text \<Rightarrow>
          (let content = readlines text;
               stats = map strip content
           in case stats of
                [] \<Rightarrow> Inl IndexError
              | s0 # _ \<Rightarrow> (case pyfloat s0 of None \<Rightarrow> Inl ValueError | Some v \<Rightarrow> Inr v)))"

subsection \<open>Executing\<close>

text \<open>
  The tail every execute function ends with:
  \<^verbatim>\<open>if process == 1: print("FAILED!!\n"); return None
  else: print("success"); acc = self.readStatsFile(); return acc\<close>
\<close>

definition execute_outcome ::
  "(string \<Rightarrow> 'f option) \<Rightarrow> predictor \<Rightarrow> (error + int) \<times> world \<Rightarrow> (error + 'f option) \<times> world" where
  "execute_outcome pyfloat self r =
     (case r of
        (Inl e, w) \<Rightarrow> (Inl e, w)
      | (Inr process, w) \<Rightarrow>
          (if process = 1 then (Inr None, pyprint (''FAILED!!'' @ [LF]) w)
           else
             (let w1 = pyprint ''success'' w
              in case readStatsFile pyfloat self w1 of
                   Inl e \<Rightarrow> (Inl e, w1)
                 | Inr acc \<Rightarrow> (Inr (Some acc), w1))))"

definition execute_with ::
  "string \<Rightarrow> child \<Rightarrow> (string \<Rightarrow> 'f option) \<Rightarrow> predictor \<Rightarrow> world \<Rightarrow> (error + 'f option) \<times> world" where
  "execute_with exeFile ch pyfloat self w =
     (let w1 = pyprint_noend ''Execution...'' w;
          args = [exeFile, algo self, version self, datasetType self];
          logFile = os_path_join (outputDir self) [''exec.txt''];
          w2 = open_w logFile w1
      in execute_outcome pyfloat self (subprocess_call ch args (environ w2) logFile w2))"

definition executeForWindows ::
  "child \<Rightarrow> (string \<Rightarrow> 'f option) \<Rightarrow> predictor \<Rightarrow> world \<Rightarrow> (error + 'f option) \<times> world" where
  "executeForWindows = execute_with (os_path_join ''x64'' [''Release'', ''Predictor.exe''])"

definition executeForLinux ::
  "child \<Rightarrow> (string \<Rightarrow> 'f option) \<Rightarrow> predictor \<Rightarrow> world \<Rightarrow> (error + 'f option) \<times> world" where
  "executeForLinux = execute_with ''./Predictor''"

definition executeForMingw ::
  "child \<Rightarrow> (string \<Rightarrow> 'f option) \<Rightarrow> predictor \<Rightarrow> world \<Rightarrow> (error + 'f option) \<times> world" where
  "executeForMingw = execute_with ''./Predictor.exe''"

definition execute ::
  "child \<Rightarrow> (string \<Rightarrow> 'f option) \<Rightarrow> common \<Rightarrow> predictor \<Rightarrow> world \<Rightarrow> (error + 'f option) \<times> world" where
  "execute ch pyfloat cm self w =
     (if windows cm then
        (if mingw cm then executeForMingw ch pyfloat self w
         else executeForWindows ch pyfloat self w)
      else executeForLinux ch pyfloat self w)"

text \<open>
  \<^verbatim>\<open>Predictor.run\<close>: \<^verbatim>\<open>res = self.build(); if res == False: return None;
  acc = self.execute(); return acc\<close>.
\<close>

definition run ::
  "child \<Rightarrow> (string \<Rightarrow> 'f option) \<Rightarrow> common \<Rightarrow> predictor \<Rightarrow> world \<Rightarrow> (error + 'f option) \<times> world" where
  "run ch pyfloat cm self w =
     (case build ch cm self w of
        (Inl e, w1) \<Rightarrow> (Inl e, w1)
      | (Inr res, w1) \<Rightarrow>
          (if res = False then (Inr None, w1) else execute ch pyfloat cm self w1))"

section \<open>SeeDot-dev.py\<close>

subsection \<open>Arguments and configuration\<close>

text \<open>
  A parsed axis is what \<^verbatim>\<open>argparse\<close> stored: one string when the option was given,
  or the default, which may be a list. Iterating over a Python string yields its
  characters as one-character strings.
\<close>

datatype pyval = Str string | Lst "string list"

fun iter_of :: "pyval \<Rightarrow> string list" where
  "iter_of (Lst xs) = xs"
| "iter_of (Str s) = map (\<lambda>c. [c]) s"

record args =
  algo_a :: pyval
  encoding :: pyval
  dataset :: pyval
  datasetType_a :: pyval
  target :: pyval
  maximisingMetric :: pyval
  numOutputs :: int
  source :: string
  max_scale_factor :: "int option"
  log_a :: string
  load_sf :: bool

text \<open>\<^verbatim>\<open>if not isinstance(x, list): x = [x]\<close>\<close>

fun listify :: "pyval \<Rightarrow> pyval" where
  "listify (Lst xs) = Lst xs"
| "listify (Str s) = Lst [s]"

text \<open>
  Lines 100 to 111 of \<^verbatim>\<open>parseArgs\<close>, the normalisation of the six axes. The
  scratch and output directories that the rest of \<^verbatim>\<open>parseArgs\<close> prepares play no
  part below.
\<close>

definition parseArgs :: "args \<Rightarrow> args" where
  "parseArgs a =
     a\<lparr>algo_a := listify (algo_a a),
       encoding := listify (encoding a),
       dataset := listify (dataset a),
       datasetType_a := listify (datasetType_a a),
       target := listify (target a),
       maximisingMetric := listify (maximisingMetric a)\<rparr>"

text \<open>
  The module globals of \<^verbatim>\<open>seedot.config\<close> that the driver reads and writes;
  \<open>msbuildPath_cfg\<close> is \<^verbatim>\<open>config.msbuildPath\<close>.
\<close>

record config =
  wordLength :: int
  msbuildPathOptions :: "string list"
  msbuildPath_cfg :: "string option"

text \<open>
  Modelled from the spec: the constants \<^verbatim>\<open>config.Encoding.floatt\<close> and
  \<^verbatim>\<open>config.Source.onnx\<close> are declared in \<^verbatim>\<open>seedot/config.py\<close>, which is not among
  the sources; the spec names the floating-point encoding \<^verbatim>\<open>float\<close>, and the help
  texts of \<^verbatim>\<open>parseArgs\<close> list \<^verbatim>\<open>'float'\<close> and \<^verbatim>\<open>'onnx'\<close>.
\<close>

definition Encoding_floatt :: string where
  "Encoding_floatt = ''float''"

definition Source_onnx :: string where
  "Source_onnx = ''onnx''"

definition datasetProcessedDir :: string where
  "datasetProcessedDir = os_path_join ''datasets'' []"

definition modelProcessedDir :: string where
  "modelProcessedDir = os_path_join ''model'' []"

subsection \<open>Looking for msbuild\<close>

text \<open>
  The loop of \<^verbatim>\<open>checkMSBuildPath\<close> visits every candidate; each one that is a file
  sets \<^verbatim>\<open>found\<close> and overwrites \<^verbatim>\<open>config.msbuildPath\<close>.
\<close>

fun checkMSBuildPath_loop :: "(string \<Rightarrow> bool) \<Rightarrow> string list \<Rightarrow> bool \<times> config \<Rightarrow> bool \<times> config" where
  "checkMSBuildPath_loop isfile [] (found, c) = (found, c)"
| "checkMSBuildPath_loop isfile (path # ps) (found, c) =
     (if isfile path
      then checkMSBuildPath_loop isfile ps (True, c\<lparr>msbuildPath_cfg := Some path\<rparr>)
      else checkMSBuildPath_loop isfile ps (found, c))"

definition checkMSBuildPath :: "(string \<Rightarrow> bool) \<Rightarrow> config \<Rightarrow> error option \<times> config" where
  "checkMSBuildPath isfile c =
     (case checkMSBuildPath_loop isfile (msbuildPathOptions c) (False, c) of
        (found, c') \<Rightarrow>
          (if \<not> found then (Some (Exception_msbuild (msbuildPathOptions c')), c')
           else (None, c')))"

subsection \<open>The sweep\<close>

text \<open>The arguments one \<^verbatim>\<open>main.Main(...)\<close> is constructed with.\<close>

record main_args =
  m_algo :: string
  m_encoding :: string
  m_target :: string
  m_trainingInput :: string
  m_testingInput :: string
  m_modelDir :: string
  m_sf :: "int option"
  m_maximisingMetric :: string
  m_dataset :: string
  m_numOutputs :: int
  m_source :: string

text \<open>
  \<^verbatim>\<open>seedot.main\<close> is outside the sources: constructing and running a \<^verbatim>\<open>Main\<close>
  either raises or returns, and changes whatever it changes (\<open>'w\<close>).
  \<open>started\<close> lists the \<^verbatim>\<open>Main\<close> objects the driver has run, in order.
  \<open>bitwidth\<close> is the local variable of that name in \<^verbatim>\<open>runMainDriver\<close>, \<open>None\<close>
  while it is unbound; being a local of the function and not of the loop body, it
  keeps its value from one iteration to the next.
\<close>

type_synonym 'w main = "main_args \<Rightarrow> 'w \<Rightarrow> error option \<times> 'w"

record 'w dstate =
  outside :: 'w
  started :: "main_args list"
  printed :: string
  bitwidth :: "string option"

type_synonym point = "string \<times> string \<times> string \<times> string \<times> string \<times> int"

text \<open>
  \<^verbatim>\<open>product(self.args.algo, self.args.encoding, self.args.dataset, self.args.target,
  self.args.maximisingMetric, [16])\<close>: the rightmost iterable advances fastest.
\<close>

definition sweep :: "args \<Rightarrow> point list" where
  "sweep a =
     List.product (iter_of (algo_a a))
       (List.product (iter_of (encoding a))
          (List.product (iter_of (dataset a))
             (List.product (iter_of (target a))
                (List.product (iter_of (maximisingMetric a)) [16]))))"

text \<open>
  Lines 183 to 199. The chain tests \<^verbatim>\<open>config.wordLength\<close>, not the loop's own
  \<^verbatim>\<open>wordLength\<close>. \<^verbatim>\<open>assert False\<close> raises inside the \<^verbatim>\<open>try\<close>; the handler
  asserts \<^verbatim>\<open>self.args.load_sf == False\<close>, so the failure is swallowed when the
  flag is off and escapes when it is on. No branch of a swallowed failure assigns
  \<^verbatim>\<open>bitwidth\<close>: it stays what it was before (\<open>prev\<close>), the tag of the previous
  point or unbound. The result is the value of \<^verbatim>\<open>bitwidth\<close> after the statement.
\<close>

definition deriveBitwidth ::
  "config \<Rightarrow> args \<Rightarrow> string \<Rightarrow> string option \<Rightarrow> error + string option" where
  "deriveBitwidth c a enc prev =
     (if enc = Encoding_floatt then Inr (Some ''float'')
      else if wordLength c = 8 then Inr (Some ''int8'')
      else if wordLength c = 16 then Inr (Some ''int16'')
      else if wordLength c = 32 then Inr (Some ''int32'')
      else (if load_sf a = False then Inr prev else Inl AssertionError))"

definition toMain :: "args \<Rightarrow> point \<Rightarrow> main_args" where
  "toMain a it =
     (case it of (al, enc, ds, tg, mm, wl) \<Rightarrow>
        (let datasetDir = os_path_join datasetProcessedDir [al, ds];
             modelDir = os_path_join modelProcessedDir [al, ds];
             source_update = (if source a = Source_onnx then ''_onnx'' else []);
             trainingInput = os_path_join datasetDir [''train'' @ source_update @ ''.npy''];
             testingInput = os_path_join datasetDir [''test'' @ source_update @ ''.npy''];
             sf = max_scale_factor a
         in \<lparr>m_algo = al, m_encoding = enc, m_target = tg,
             m_trainingInput = trainingInput, m_testingInput = testingInput,
             m_modelDir = modelDir, m_sf = sf, m_maximisingMetric = mm,
             m_dataset = ds, m_numOutputs = numOutputs a, m_source = source a\<rparr>))"

definition banner :: "point \<Rightarrow> string" where
  "banner it =
     (case it of (al, enc, ds, tg, mm, wl) \<Rightarrow>
        [LF] @ ''========================================'' @ [LF]
        @ ''Executing on '' @ al @ '' '' @ enc @ '' '' @ ds @ '' '' @ tg @ [LF]
        @ ''========================================'' @ [LF, LF])"

text \<open>The body of the loop of \<^verbatim>\<open>runMainDriver\<close> for one element of the product.\<close>

definition runPoint :: "'w main \<Rightarrow> config \<Rightarrow> args \<Rightarrow> point \<Rightarrow> 'w dstate \<Rightarrow> error option \<times> 'w dstate" where
  "runPoint M c a it s =
     (let s1 = s\<lparr>printed := printed s @ banner it\<rparr>
      in case deriveBitwidth c a (fst (snd it)) (bitwidth s1) of
           Inl e \<Rightarrow> (Some e, s1)
         | Inr bw \<Rightarrow>
             (let s2 = s1\<lparr>bitwidth := bw\<rparr>;
                  obj = toMain a it
              in case M obj (outside s2) of
                   (r, w') \<Rightarrow> (r, s2\<lparr>outside := w', started := started s2 @ [obj]\<rparr>)))"

fun runPoints :: "'w main \<Rightarrow> config \<Rightarrow> args \<Rightarrow> point list \<Rightarrow> 'w dstate \<Rightarrow> error option \<times> 'w dstate" where
  "runPoints M c a [] s = (None, s)"
| "runPoints M c a (it # its) s =
     (case runPoint M c a it s of
        (Some e, s') \<Rightarrow> (Some e, s')
      | (None, s') \<Rightarrow> runPoints M c a its s')"

text \<open>\<^verbatim>\<open>runMainDriver\<close>: on entry the local \<^verbatim>\<open>bitwidth\<close> is unbound.\<close>

definition runMainDriver :: "'w main \<Rightarrow> config \<Rightarrow> args \<Rightarrow> 'w dstate \<Rightarrow> error option \<times> 'w dstate" where
  "runMainDriver M c a s = runPoints M c a (sweep a) (s\<lparr>bitwidth := None\<rparr>)"

text \<open>
  \<^verbatim>\<open>setLogLevel\<close>:
  \<^verbatim>\<open>logging.basicConfig(level=os.environ.get("LOGLEVEL", self.args.log.upper()))\<close>.
  The level is a string; on a root logger with no handler yet, one that is not the
  name of a level raises \<^verbatim>\<open>ValueError\<close>. \<open>upper\<close> is \<^verbatim>\<open>str.upper\<close> on the
  letters a to z.
\<close>

definition upper :: "string \<Rightarrow> string" where
  "upper s =
     map (\<lambda>c. case map_of (zip ''abcdefghijklmnopqrstuvwxyz'' ''ABCDEFGHIJKLMNOPQRSTUVWXYZ'') c of
                 Some u \<Rightarrow> u | None \<Rightarrow> c) s"

definition levelNames :: "string list" where
  "levelNames = [''CRITICAL'', ''FATAL'', ''ERROR'', ''WARN'', ''WARNING'', ''INFO'', ''DEBUG'',
                 ''NOTSET'']"

definition setLogLevel :: "env \<Rightarrow> args \<Rightarrow> error option" where
  "setLogLevel e a =
     (let level = (case e ''LOGLEVEL'' of Some v \<Rightarrow> v | None \<Rightarrow> upper (log_a a))
      in if level \<in> set levelNames then None else Some ValueError)"

text \<open>
  \<^verbatim>\<open>MainDriver.run\<close>; \<open>win\<close> is \<^verbatim>\<open>util.windows()\<close>, \<open>isfile\<close> is
  \<^verbatim>\<open>os.path.isfile\<close>, \<open>e\<close> is \<^verbatim>\<open>os.environ\<close>. \<^verbatim>\<open>setGlobalFlags\<close> only
  sets the numpy error mode, which touches nothing modelled here.
\<close>

definition run_driver ::
  "'w main \<Rightarrow> (string \<Rightarrow> bool) \<Rightarrow> bool \<Rightarrow> env \<Rightarrow> config \<Rightarrow> args \<Rightarrow> 'w dstate
   \<Rightarrow> error option \<times> config \<times> 'w dstate" where
  "run_driver M isfile win e c a s =
     (case setLogLevel e a of
        Some err \<Rightarrow> (Some err, c, s)
      | None \<Rightarrow>
          (if win then
             (case checkMSBuildPath isfile c of
                (Some err, c') \<Rightarrow> (Some err, c', s)
              | (None, c') \<Rightarrow> (case runMainDriver M c' a s of (r, s') \<Rightarrow> (r, c', s')))
           else (case runMainDriver M c a s of (r, s') \<Rightarrow> (r, c, s'))))"

section \<open>Concrete inputs\<close>

text \<open>
  A child that exits with a given status and leaves the files alone, an empty world,
  one Predictor, a non-Windows host and a MinGW host: the inputs the closed theorems
  below are evaluated at.
\<close>

definition child_exit :: "int \<Rightarrow> child" where
  "child_exit rc = (\<lambda>args e logFile fs. (Some rc, fs))"

definition world0 :: world where
  "world0 = \<lparr>files = Map.empty, environ = Map.empty, spawned = [], console = []\<rparr>"

definition bonsai_p :: predictor where
  "bonsai_p = \<lparr>algo = ''bonsai'', version = ''fixed'', datasetType = ''testing'', outputDir = ''out''\<rparr>"

definition linux_host :: common where
  "linux_host = \<lparr>msbuildPath = ''msbuild.exe'', gccPath = None, mingw = False, windows = False\<rparr>"

definition mingw_host :: "string option \<Rightarrow> common" where
  "mingw_host g = \<lparr>msbuildPath = ''msbuild.exe'', gccPath = g, mingw = True, windows = True\<rparr>"

definition world_path :: world where
  "world_path = \<lparr>files = Map.empty, environ = [''PATH'' \<mapsto> ''/usr/bin''], spawned = [], console = []\<rparr>"

definition child_exec_fails :: child where
  "child_exec_fails = (\<lambda>args e logFile fs. (Some (if args = [''make''] then 0 else 1), fs))"

text \<open>A parser that knows one numeral, enough to run the example of the specification.\<close>

definition float_0_9231 :: "string \<Rightarrow> real option" where
  "float_0_9231 s = (if s = ''0.9231'' then Some (9231 / 10000) else None)"

definition world_stats :: "string \<Rightarrow> world" where
  "world_stats text = \<lparr>files = [''output/bonsai-fixed/stats-testing.txt'' \<mapsto> text],
     environ = Map.empty, spawned = [], console = []\<rparr>"

text \<open>
  For the driver: a file system where every candidate is a file and one where none is,
  a configuration with two candidates, a \<^verbatim>\<open>Main\<close> that always returns and one
  that raises for one algorithm (both leave a trace of the algorithms they were run
  on), selections of axes as \<^verbatim>\<open>argparse\<close> leaves them, and the state before the
  sweep.
\<close>

definition every_file :: "string \<Rightarrow> bool" where
  "every_file p = True"

definition no_file :: "string \<Rightarrow> bool" where
  "no_file p = False"

definition config_two :: "int \<Rightarrow> config" where
  "config_two wl = \<lparr>wordLength = wl,
     msbuildPathOptions = [''C:/VS/2017/MSBuild.exe'', ''C:/VS/2019/MSBuild.exe''],
     msbuildPath_cfg = None\<rparr>"

definition main_ok :: "string list main" where
  "main_ok m w = (None, w @ [m_algo m])"


definition args1 :: "bool \<Rightarrow> args" where
  "args1 lsf = \<lparr>algo_a = Str ''bonsai'', encoding = Str ''fixed'', dataset = Lst [''cifar-binary''],
     datasetType_a = Str ''testing'', target = Str ''x86'', maximisingMetric = Str ''acc'',
     numOutputs = 1, source = ''seedot'', max_scale_factor = None, log_a = ''error'',
     load_sf = lsf\<rparr>"


definition dstate0 :: "string list dstate" where
  "dstate0 = \<lparr>outside = [], started = [], printed = [], bitwidth = None\<rparr>"

definition point1 :: point where
  "point1 = (''bonsai'', ''fixed'', ''cifar-binary'', ''x86'', ''acc'', 16)"


section \<open>Properties\<close>

subsection \<open>The build and execute pipeline\<close>

lemma subprocess_call_eq:
  "ch args e l (files w) = (r, fs) \<Longrightarrow>
   subprocess_call ch args e l w =
     ((case r of None \<Rightarrow> Inl OSError | Some rc \<Rightarrow> Inr rc),
      w\<lparr>spawned := spawned w @ [(args, e)], files := fs\<rparr>)"
  by (cases r) (simp_all add: subprocess_call_def Let_def)

lemma subprocess_call_status:
  assumes "fst (ch args e l (files w)) = Some rc"
  shows "fst (subprocess_call ch args e l w) = Inr rc"
proof -
  obtain fs where "ch args e l (files w) = (Some rc, fs)"
    using assms by (cases "ch args e l (files w)") simp
  then show ?thesis by (simp add: subprocess_call_eq)
qed

lemma subprocess_call_spawned:
  "spawned (snd (subprocess_call ch args e l w)) = spawned w @ [(args, e)]"
  by (cases "ch args e l (files w)") (simp add: subprocess_call_eq split: option.splits)

lemma build_outcome_status:
  "fst r = Inr rc \<Longrightarrow> fst (build_outcome r) = Inr (rc \<noteq> 1)"
  by (cases r) (simp add: build_outcome_def)

lemma build_outcome_spawned:
  "spawned (snd (build_outcome r)) = spawned (snd r)"
  by (cases r) (simp add: build_outcome_def pyprint_def split: sum.splits)

lemma build_outcome_files:
  "files (snd (build_outcome r)) = files (snd r)"
  by (cases r) (simp add: build_outcome_def pyprint_def split: sum.splits)

lemma execute_outcome_failed:
  "fst r = Inr 1 \<Longrightarrow> fst (execute_outcome pf self r) = Inr None"
  by (cases r) (simp add: execute_outcome_def)

lemma buildForWindows_status:
  "\<forall>args e l fs. fst (ch args e l fs) = Some rc \<Longrightarrow>
   fst (buildForWindows ch cm self w) = Inr (rc \<noteq> 1)"
  by (simp add: buildForWindows_def Let_def build_outcome_status subprocess_call_status)

lemma buildForLinux_status:
  "\<forall>args e l fs. fst (ch args e l fs) = Some rc \<Longrightarrow>
   fst (buildForLinux ch cm self w) = Inr (rc \<noteq> 1)"
  by (simp add: buildForLinux_def Let_def build_outcome_status subprocess_call_status)

lemma buildForMingw_status:
  "\<forall>args e l fs. fst (ch args e l fs) = Some rc \<Longrightarrow> gccPath cm = None \<or> gccPath cm = Some [] \<Longrightarrow>
   fst (buildForMingw ch cm self w) = Inr (rc \<noteq> 1)"
  by (auto simp add: buildForMingw_def Let_def build_outcome_status subprocess_call_status)

lemma execute_with_failed:
  "\<forall>args e l fs. fst (ch args e l fs) = Some 1 \<Longrightarrow>
   fst (execute_with exe ch pf self w) = Inr None"
  by (simp add: execute_with_def Let_def execute_outcome_failed subprocess_call_status)

lemma readStatsFile_files:
  "files w = files w' \<Longrightarrow> readStatsFile pf self w = readStatsFile pf self w'"
  by (simp add: readStatsFile_def)

lemma execute_with_passed:
  assumes "\<forall>args e l fs. fst (ch args e l fs) = Some rc" and "rc \<noteq> 1"
  shows "fst (execute_with exe ch pf self w)
         = (case readStatsFile pf self
                  (w\<lparr>files := snd (ch [exe, algo self, version self, datasetType self] (environ w)
                                     (os_path_join (outputDir self) [''exec.txt''])
                                     ((files w)(os_path_join (outputDir self) [''exec.txt''] \<mapsto> [])))\<rparr>)
            of Inl e \<Rightarrow> Inl e | Inr v \<Rightarrow> Inr (Some v))"
proof -
  let ?L = "os_path_join (outputDir self) [''exec.txt'']"
  let ?args = "[exe, algo self, version self, datasetType self]"
  let ?w2 = "open_w ?L (pyprint_noend ''Execution...'' w)"
  obtain r fs where c: "ch ?args (environ w) ?L ((files w)(?L \<mapsto> [])) = (r, fs)"
    by (cases "ch ?args (environ w) ?L ((files w)(?L \<mapsto> []))")
  with assms(1) have r: "r = Some rc" by (metis fst_conv)
  have w2: "environ ?w2 = environ w" "files ?w2 = (files w)(?L \<mapsto> [])"
    by (simp_all add: open_w_def pyprint_noend_def)
  from c r w2 have call: "subprocess_call ch ?args (environ ?w2) ?L ?w2
        = (Inr rc, ?w2\<lparr>spawned := spawned ?w2 @ [(?args, environ w)], files := fs\<rparr>)"
    using subprocess_call_eq [of ch ?args "environ ?w2" ?L ?w2 r fs] by simp
  have same: "readStatsFile pf self
                 (pyprint ''success'' (?w2\<lparr>spawned := spawned ?w2 @ [(?args, environ w)], files := fs\<rparr>))
              = readStatsFile pf self (w\<lparr>files := fs\<rparr>)"
    by (rule readStatsFile_files) (simp add: pyprint_def)
  have "fst (execute_with exe ch pf self w)
        = (case readStatsFile pf self (w\<lparr>files := fs\<rparr>) of Inl e \<Rightarrow> Inl e | Inr v \<Rightarrow> Inr (Some v))"
    unfolding execute_with_def Let_def call
    using assms(2) same by (simp add: execute_outcome_def Let_def split: sum.splits)
  with c show ?thesis by simp
qed

text \<open>
  Claim C2, as the code has it. Every build function and every execute function tests
  the exit status of its child process with \<^verbatim>\<open>process == 1\<close>. When the child exits
  with status \<open>rc\<close>, each build function returns \<open>False\<close> exactly when
  \<open>rc = 1\<close> and \<open>True\<close> for every other status, zero or not; each execute
  function returns \<^verbatim>\<open>None\<close> when \<open>rc = 1\<close>, and for every other status its
  result is that of \<^verbatim>\<open>readStatsFile\<close> on the file system its child left: the metric,
  or the reader's exception. (\<^verbatim>\<open>buildForMingw\<close> is taken with no compiler root
  configured.)
\<close>

theorem exit_status_one_is_failure:
  assumes "\<forall>args e l fs. fst (ch args e l fs) = Some rc"
  shows "fst (buildForWindows ch cm self w) = Inr (rc \<noteq> 1)
       \<and> fst (buildForLinux ch cm self w) = Inr (rc \<noteq> 1)
       \<and> (gccPath cm = None \<or> gccPath cm = Some [] \<longrightarrow>
            fst (buildForMingw ch cm self w) = Inr (rc \<noteq> 1))
       \<and> (rc = 1 \<longrightarrow> fst (executeForWindows ch pf self w) = Inr None
                  \<and> fst (executeForLinux ch pf self w) = Inr None
                  \<and> fst (executeForMingw ch pf self w) = Inr None)
       \<and> (rc \<noteq> 1 \<longrightarrow>
            fst (executeForWindows ch pf self w)
            = (case readStatsFile pf self
                 (w\<lparr>files := snd (ch [os_path_join ''x64'' [''Release'', ''Predictor.exe''],
                                      algo self, version self, datasetType self] (environ w)
                                    (os_path_join (outputDir self) [''exec.txt''])
                                    ((files w)(os_path_join (outputDir self) [''exec.txt''] \<mapsto> [])))\<rparr>)
               of Inl e \<Rightarrow> Inl e | Inr v \<Rightarrow> Inr (Some v))
          \<and> fst (executeForLinux ch pf self w)
            = (case readStatsFile pf self
                 (w\<lparr>files := snd (ch [''./Predictor'', algo self, version self, datasetType self]
                                    (environ w)
                                    (os_path_join (outputDir self) [''exec.txt''])
                                    ((files w)(os_path_join (outputDir self) [''exec.txt''] \<mapsto> [])))\<rparr>)
               of Inl e \<Rightarrow> Inl e | Inr v \<Rightarrow> Inr (Some v))
          \<and> fst (executeForMingw ch pf self w)
            = (case readStatsFile pf self
                 (w\<lparr>files := snd (ch [''./Predictor.exe'', algo self, version self, datasetType self]
                                    (environ w)
                                    (os_path_join (outputDir self) [''exec.txt''])
                                    ((files w)(os_path_join (outputDir self) [''exec.txt''] \<mapsto> [])))\<rparr>)
               of Inl e \<Rightarrow> Inl e | Inr v \<Rightarrow> Inr (Some v)))"
proof -
  have builds: "fst (buildForWindows ch cm self w) = Inr (rc \<noteq> 1)"
    "fst (buildForLinux ch cm self w) = Inr (rc \<noteq> 1)"
    "gccPath cm = None \<or> gccPath cm = Some [] \<longrightarrow>
       fst (buildForMingw ch cm self w) = Inr (rc \<noteq> 1)"
    using assms
    by (simp_all add: buildForWindows_status buildForLinux_status buildForMingw_status)
  have failed: "rc = 1 \<longrightarrow> fst (executeForWindows ch pf self w) = Inr None
                  \<and> fst (executeForLinux ch pf self w) = Inr None
                  \<and> fst (executeForMingw ch pf self w) = Inr None"
    using assms
    by (simp add: executeForWindows_def executeForLinux_def executeForMingw_def
        execute_with_failed)
  have passed: "fst (executeForWindows ch pf self w)
            = (case readStatsFile pf self
                 (w\<lparr>files := snd (ch [os_path_join ''x64'' [''Release'', ''Predictor.exe''],
                                      algo self, version self, datasetType self] (environ w)
                                    (os_path_join (outputDir self) [''exec.txt''])
                                    ((files w)(os_path_join (outputDir self) [''exec.txt''] \<mapsto> [])))\<rparr>)
               of Inl e \<Rightarrow> Inl e | Inr v \<Rightarrow> Inr (Some v))"
    "fst (executeForLinux ch pf self w)
            = (case readStatsFile pf self
                 (w\<lparr>files := snd (ch [''./Predictor'', algo self, version self, datasetType self]
                                    (environ w)
                                    (os_path_join (outputDir self) [''exec.txt''])
                                    ((files w)(os_path_join (outputDir self) [''exec.txt''] \<mapsto> [])))\<rparr>)
               of Inl e \<Rightarrow> Inl e | Inr v \<Rightarrow> Inr (Some v))"
    "fst (executeForMingw ch pf self w)
            = (case readStatsFile pf self
                 (w\<lparr>files := snd (ch [''./Predictor.exe'', algo self, version self, datasetType self]
                                    (environ w)
                                    (os_path_join (outputDir self) [''exec.txt''])
                                    ((files w)(os_path_join (outputDir self) [''exec.txt''] \<mapsto> [])))\<rparr>)
               of Inl e \<Rightarrow> Inl e | Inr v \<Rightarrow> Inr (Some v))"
    if "rc \<noteq> 1"
    unfolding executeForWindows_def executeForLinux_def executeForMingw_def
    by (rule execute_with_passed [OF assms that])+
  from builds failed passed show ?thesis by blast
qed

text \<open>
  Claim C2 as stated fails: a \<^verbatim>\<open>make\<close> that exits with status 2, a non-zero
  status, leaves \<^verbatim>\<open>buildForLinux\<close> returning \<open>True\<close>.
\<close>

theorem nonzero_exit_status_counterexample:
  "fst (child_exit 2 [''make''] Map.empty ''out/msbuild.txt'' Map.empty) = Some 2
   \<and> fst (buildForLinux (child_exit 2) linux_host bonsai_p world0) = Inr True"
  by (simp add: buildForLinux_def Let_def build_outcome_def subprocess_call_def child_exit_def)

text \<open>
  The theorem of C2 at a child that always exits with status 2, without and with a
  stats file in place.
\<close>

theorem exit_status_one_is_failure_witness:
  "(\<forall>args e l fs. fst (child_exit 2 args e l fs) = Some 2)
   \<and> fst (buildForWindows (child_exit 2) linux_host bonsai_p world0) = Inr True
   \<and> fst (executeForLinux (child_exit 2) float_0_9231 bonsai_p world0) = Inl FileNotFoundError
   \<and> fst (executeForLinux (child_exit 2) float_0_9231 bonsai_p (world_stats (''0.9231'' @ [LF])))
       = Inr (Some (9231 / 10000))"
proof -
  have h: "\<forall>args e l fs. fst (child_exit 2 args e l fs) = Some 2"
    by (simp add: child_exit_def)
  have ne: "(2::int) \<noteq> 1" by simp
  have p: "statsFile bonsai_p = ''output/bonsai-fixed/stats-testing.txt''"
    by (simp add: statsFile_def os_path_join_def join2_def bonsai_p_def)
  have l: "os_path_join (outputDir bonsai_p) [''exec.txt''] = ''out/exec.txt''"
    by (simp add: os_path_join_def join2_def bonsai_p_def)
  have r0: "readStatsFile float_0_9231 bonsai_p
              (world0\<lparr>files := (files world0)(''out/exec.txt'' \<mapsto> [])\<rparr>) = Inl FileNotFoundError"
    by (simp add: readStatsFile_def p world0_def)
  have r1: "readStatsFile float_0_9231 bonsai_p
              ((world_stats (''0.9231'' @ [LF]))
                 \<lparr>files := (files (world_stats (''0.9231'' @ [LF])))(''out/exec.txt'' \<mapsto> [])\<rparr>)
            = Inr (9231 / 10000)"
    by (simp add: readStatsFile_def p world_stats_def readlines_def strip_def isspace_def
        whitespace_def float_0_9231_def)
  note T0 = exit_status_one_is_failure [OF h, of linux_host bonsai_p world0 float_0_9231]
  note T1 = exit_status_one_is_failure [OF h, of linux_host bonsai_p
               "world_stats (''0.9231'' @ [LF])" float_0_9231]
  from T0 have b: "fst (buildForWindows (child_exit 2) linux_host bonsai_p world0) = Inr True"
    by simp
  from T0 ne have "fst (executeForLinux (child_exit 2) float_0_9231 bonsai_p world0)
      = (case readStatsFile float_0_9231 bonsai_p
                (world0\<lparr>files := (files world0)(''out/exec.txt'' \<mapsto> [])\<rparr>)
         of Inl e \<Rightarrow> Inl e | Inr v \<Rightarrow> Inr (Some v))"
    by (simp add: child_exit_def l)
  with r0 have e0: "fst (executeForLinux (child_exit 2) float_0_9231 bonsai_p world0)
      = Inl FileNotFoundError" by simp
  from T1 ne have "fst (executeForLinux (child_exit 2) float_0_9231 bonsai_p
                         (world_stats (''0.9231'' @ [LF])))
      = (case readStatsFile float_0_9231 bonsai_p
                ((world_stats (''0.9231'' @ [LF]))
                   \<lparr>files := (files (world_stats (''0.9231'' @ [LF])))(''out/exec.txt'' \<mapsto> [])\<rparr>)
         of Inl e \<Rightarrow> Inl e | Inr v \<Rightarrow> Inr (Some v))"
    by (simp add: child_exit_def l)
  with r1 have e1: "fst (executeForLinux (child_exit 2) float_0_9231 bonsai_p
                         (world_stats (''0.9231'' @ [LF]))) = Inr (Some (9231 / 10000))" by simp
  from h b e0 e1 show ?thesis by simp
qed


lemma build_spawned:
  "fst (build ch cm self w) = Inr b \<Longrightarrow>
   length (spawned (snd (build ch cm self w))) = Suc (length (spawned w))"
  by (auto simp add: build_def buildForWindows_def buildForLinux_def buildForMingw_def Let_def
      build_outcome_spawned subprocess_call_spawned open_w_def pyprint_noend_def
      split: if_splits)

lemma log_paths_differ:
  "os_path_join d [''msbuild.txt''] \<noteq> os_path_join d [''exec.txt'']"
  "os_path_join d [''gccbuild.txt''] \<noteq> os_path_join d [''exec.txt'']"
  by (simp_all add: os_path_join_def join2_def)

lemma subprocess_call_files:
  "\<forall>args e l fs. snd (ch args e l fs) p = fs p \<Longrightarrow>
   files (snd (subprocess_call ch args e l w)) p = files w p"
proof -
  assume a: "\<forall>args e l fs. snd (ch args e l fs) p = fs p"
  obtain r fs where c: "ch args e l (files w) = (r, fs)" by (cases "ch args e l (files w)")
  from a have "snd (ch args e l (files w)) p = files w p" by blast
  with c show ?thesis by (simp add: subprocess_call_eq)
qed

lemma build_keeps_exec_log:
  assumes "\<forall>args e l fs. snd (ch args e l fs) (os_path_join (outputDir self) [''exec.txt'']) = fs (os_path_join (outputDir self) [''exec.txt''])"
  shows "files (snd (build ch cm self w)) (os_path_join (outputDir self) [''exec.txt''])
         = files w (os_path_join (outputDir self) [''exec.txt''])"
  using assms log_paths_differ [of "outputDir self"]
  by (simp add: build_def buildForWindows_def buildForLinux_def buildForMingw_def Let_def
      build_outcome_files subprocess_call_files open_w_def pyprint_noend_def)

lemma build_status:
  assumes "\<forall>args e l fs. fst (ch args e l fs) = Some rc"
    and "\<not> (windows cm \<and> mingw cm) \<or> gccPath cm = None \<or> gccPath cm = Some []"
  shows "fst (build ch cm self w) = Inr (rc \<noteq> 1)"
  using assms
  by (auto simp add: build_def buildForWindows_status buildForLinux_status buildForMingw_status)

text \<open>
  Claim C7, as the code has it. When the build stage reports failure (\<^verbatim>\<open>build()\<close>
  returns \<open>False\<close>), \<^verbatim>\<open>Predictor.run\<close> returns \<^verbatim>\<open>None\<close> and the world it leaves
  is the one the build stage left: exactly one child process was started, the build
  tool, and if no \<^verbatim>\<open>exec.txt\<close> was in the output directory and the build tool wrote
  none, there is none afterwards. The build stage reports failure exactly when the
  build tool exits with status 1.
\<close>

theorem build_failure_skips_execute:
  "(fst (build ch cm self w) = Inr False \<longrightarrow>
      fst (run ch pf cm self w) = Inr None
    \<and> snd (run ch pf cm self w) = snd (build ch cm self w)
    \<and> length (spawned (snd (run ch pf cm self w))) = Suc (length (spawned w))
    \<and> ((\<forall>args e l fs. snd (ch args e l fs) (os_path_join (outputDir self) [''exec.txt''])
                        = fs (os_path_join (outputDir self) [''exec.txt'']))
        \<longrightarrow> files w (os_path_join (outputDir self) [''exec.txt'']) = None
        \<longrightarrow> files (snd (run ch pf cm self w)) (os_path_join (outputDir self) [''exec.txt'']) = None))
   \<and> ((\<forall>args e l fs. fst (ch args e l fs) = Some rc)
        \<longrightarrow> \<not> (windows cm \<and> mingw cm) \<or> gccPath cm = None \<or> gccPath cm = Some []
        \<longrightarrow> (fst (build ch cm self w) = Inr False \<longleftrightarrow> rc = 1))"
proof (intro conjI impI)
  assume f: "fst (build ch cm self w) = Inr False"
  then obtain w1 where b: "build ch cm self w = (Inr False, w1)"
    by (cases "build ch cm self w") simp
  show r1: "fst (run ch pf cm self w) = Inr None" using b by (simp add: run_def)
  show r2: "snd (run ch pf cm self w) = snd (build ch cm self w)" using b by (simp add: run_def)
  show "length (spawned (snd (run ch pf cm self w))) = Suc (length (spawned w))"
    using r2 build_spawned [OF f] by simp
  assume "\<forall>args e l fs. snd (ch args e l fs) (os_path_join (outputDir self) [''exec.txt''])
                        = fs (os_path_join (outputDir self) [''exec.txt''])"
    and "files w (os_path_join (outputDir self) [''exec.txt'']) = None"
  then show "files (snd (run ch pf cm self w)) (os_path_join (outputDir self) [''exec.txt'']) = None"
    using r2 build_keeps_exec_log [of ch self cm w] by simp
next
  assume "\<forall>args e l fs. fst (ch args e l fs) = Some rc"
    and "\<not> (windows cm \<and> mingw cm) \<or> gccPath cm = None \<or> gccPath cm = Some []"
  then show "fst (build ch cm self w) = Inr False \<longleftrightarrow> rc = 1"
    using build_status [of ch rc cm self w] by simp
qed

text \<open>
  Claim C7 as stated fails for a non-zero build status other than 1: when
  \<^verbatim>\<open>make\<close> exits with status 2 the build counts as a success, the artifact is
  invoked and \<^verbatim>\<open>exec.txt\<close> is created.
\<close>

theorem build_exit_two_enters_execute:
  "fst (build (child_exit 2) linux_host bonsai_p world0) = Inr True
   \<and> map fst (spawned (snd (run (child_exit 2) (\<lambda>s. None :: nat option) linux_host bonsai_p world0)))
       = [[''make''], [''./Predictor'', ''bonsai'', ''fixed'', ''testing'']]
   \<and> files (snd (run (child_exit 2) (\<lambda>s. None :: nat option) linux_host bonsai_p world0)) ''out/exec.txt'' = Some []"
  by (simp add: run_def build_def buildForLinux_def execute_def executeForLinux_def execute_with_def
      execute_outcome_def readStatsFile_def statsFile_def
      Let_def build_outcome_def subprocess_call_def child_exit_def linux_host_def bonsai_p_def
      world0_def open_w_def pyprint_def pyprint_noend_def os_path_join_def join2_def)

text \<open>The theorem of C7 at a build tool that exits with status 1.\<close>

theorem build_failure_skips_execute_witness:
  "fst (build (child_exit 1) linux_host bonsai_p world0) = Inr False
   \<and> fst (run (child_exit 1) (\<lambda>s. None :: nat option) linux_host bonsai_p world0) = Inr None
   \<and> length (spawned (snd (run (child_exit 1) (\<lambda>s. None :: nat option) linux_host bonsai_p world0))) = 1
   \<and> files (snd (run (child_exit 1) (\<lambda>s. None :: nat option) linux_host bonsai_p world0)) ''out/exec.txt'' = None"
proof -
  let ?log = "os_path_join (outputDir bonsai_p) [''exec.txt'']"
  have h1: "\<forall>args e l fs. fst (child_exit 1 args e l fs) = Some 1"
    and h2: "\<forall>args e l fs. snd (child_exit 1 args e l fs) ?log = fs ?log"
    by (simp_all add: child_exit_def)
  have h3: "\<not> (windows linux_host \<and> mingw linux_host) \<or> gccPath linux_host = None
            \<or> gccPath linux_host = Some []"
    by (simp add: linux_host_def)
  have h4: "files world0 ?log = None" and h5: "length (spawned world0) = 0"
    by (simp_all add: world0_def)
  have p: "?log = ''out/exec.txt''"
    by (simp add: os_path_join_def join2_def bonsai_p_def)
  note T = build_failure_skips_execute [of "child_exit 1" linux_host bonsai_p world0 "\<lambda>s. None :: nat option" 1]
  from T h1 h3 have b: "fst (build (child_exit 1) linux_host bonsai_p world0) = Inr False"
    by blast
  from T b h2 h4 have
    "fst (run (child_exit 1) (\<lambda>s. None :: nat option) linux_host bonsai_p world0) = Inr None"
    "length (spawned (snd (run (child_exit 1) (\<lambda>s. None :: nat option) linux_host bonsai_p world0)))
       = Suc (length (spawned world0))"
    "files (snd (run (child_exit 1) (\<lambda>s. None :: nat option) linux_host bonsai_p world0)) ?log = None"
    by blast+
  with b h5 p show ?thesis by simp
qed


text \<open>
  Claim C9 at a configured compiler root: \<^verbatim>\<open>buildForMingw\<close> raises
  \<^verbatim>\<open>NameError\<close> before it opens the log file or starts the build, so nothing is
  invoked with an augmented \<^verbatim>\<open>PATH\<close>. With no compiler root the build tool is
  started with the environment as it is.
\<close>

theorem buildForMingw_compiler_root_NameError:
  "buildForMingw (child_exit 0) (mingw_host (Some ''C:/MinGW/bin'')) bonsai_p world_path
     = (Inl NameError, world_path)
   \<and> spawned (snd (buildForMingw (child_exit 0) (mingw_host None) bonsai_p world_path))
     = [([''mimg32-make.exe''], environ world_path)]"
  by (simp add: buildForMingw_def mingw_host_def Let_def build_outcome_def subprocess_call_def
      child_exit_def open_w_def pyprint_def world_path_def)

lemma execute_outcome_metric:
  "fst (execute_outcome pf self r) = Inr (Some v) \<Longrightarrow>
   readStatsFile pf self (snd (execute_outcome pf self r)) = Inr v"
  by (cases r) (auto simp add: execute_outcome_def Let_def split: sum.splits if_splits)

lemma execute_metric:
  "fst (execute ch pf cm self w) = Inr (Some v) \<Longrightarrow>
   readStatsFile pf self (snd (execute ch pf cm self w)) = Inr v"
  by (simp add: execute_def executeForWindows_def executeForLinux_def executeForMingw_def
      execute_with_def Let_def execute_outcome_metric split: if_splits)

text \<open>
  Claim C10. \<^verbatim>\<open>Predictor.run\<close> returns \<^verbatim>\<open>None\<close> when the build stage returns
  \<open>False\<close>, and also when the build stage returns \<open>True\<close> and the execute stage
  returns \<^verbatim>\<open>None\<close>; when it returns a metric, the build stage returned \<open>True\<close>,
  the execute stage returned that metric, and reading the stats file in the final
  world gives that metric.
\<close>

theorem run_None_or_metric:
  "(fst (build ch cm self w) = Inr False \<longrightarrow> fst (run ch pf cm self w) = Inr None)
   \<and> (fst (build ch cm self w) = Inr True \<longrightarrow>
        fst (execute ch pf cm self (snd (build ch cm self w))) = Inr None \<longrightarrow>
        fst (run ch pf cm self w) = Inr None)
   \<and> (fst (run ch pf cm self w) = Inr (Some v) \<longrightarrow>
        fst (build ch cm self w) = Inr True
        \<and> fst (execute ch pf cm self (snd (build ch cm self w))) = Inr (Some v)
        \<and> readStatsFile pf self (snd (run ch pf cm self w)) = Inr v)"
proof (cases "build ch cm self w")
  case (Pair r w1)
  show ?thesis
  proof (cases r)
    case (Inl e)
    with Pair show ?thesis by (simp add: run_def)
  next
    case (Inr b)
    with Pair show ?thesis
      by (cases b) (auto simp add: run_def dest: execute_metric)
  qed
qed

text \<open>
  The theorem of C10 at two runs with the same result \<^verbatim>\<open>None\<close>: one whose build
  fails, one whose build succeeds and whose artifact fails.
\<close>

theorem run_None_or_metric_witness:
  "fst (build (child_exit 1) linux_host bonsai_p world0) = Inr False
   \<and> fst (run (child_exit 1) (\<lambda>s. None :: nat option) linux_host bonsai_p world0) = Inr None
   \<and> fst (build child_exec_fails linux_host bonsai_p world0) = Inr True
   \<and> fst (run child_exec_fails (\<lambda>s. None :: nat option) linux_host bonsai_p world0) = Inr None"
proof -
  have b1: "fst (build (child_exit 1) linux_host bonsai_p world0) = Inr False"
    by (simp add: build_def buildForLinux_def Let_def build_outcome_def subprocess_call_def
        child_exit_def linux_host_def)
  have b2: "build child_exec_fails linux_host bonsai_p world0
            = (Inr True, world0\<lparr>files := [''out/msbuild.txt'' \<mapsto> []],
                 spawned := [([''make''], Map.empty)], console := ''Build...success'' @ [LF]\<rparr>)"
    by (simp add: build_def buildForLinux_def Let_def build_outcome_def subprocess_call_def
        child_exec_fails_def linux_host_def bonsai_p_def world0_def open_w_def pyprint_def
        pyprint_noend_def os_path_join_def join2_def)
  have e2: "fst (execute child_exec_fails (\<lambda>s. None :: nat option) linux_host bonsai_p
                  (snd (build child_exec_fails linux_host bonsai_p world0))) = Inr None"
    unfolding b2
    by (simp add: execute_def executeForLinux_def execute_with_def Let_def execute_outcome_def
        subprocess_call_def child_exec_fails_def linux_host_def bonsai_p_def)
  from b2 have b2': "fst (build child_exec_fails linux_host bonsai_p world0) = Inr True" by simp
  from b1 b2' e2
    run_None_or_metric [of "child_exit 1" linux_host bonsai_p world0 "\<lambda>s. None :: nat option"]
    run_None_or_metric [of child_exec_fails linux_host bonsai_p world0 "\<lambda>s. None :: nat option"]
  show ?thesis by blast
qed


lemma statsFile_plain:
  assumes "algo self = [] \<or> hd (algo self) \<noteq> sep"
    and "version self = [] \<or> last (version self) \<noteq> sep"
  shows "statsFile self
         = ''output/'' @ algo self @ ''-'' @ version self @ ''/stats-'' @ datasetType self @ ''.txt''"
proof -
  let ?b = "algo self @ ''-'' @ version self"
  have hd_b: "hd ?b \<noteq> sep" using assms(1) by (cases "algo self") auto
  have last_b: "last ?b \<noteq> sep" using assms(2) by (cases "version self" rule: rev_cases) auto
  have j1: "join2 ''output'' ?b = ''output/'' @ ?b"
    using hd_b by (simp add: join2_def)
  have j2: "join2 (''output/'' @ ?b) (''stats-'' @ datasetType self @ ''.txt'')
            = ''output/'' @ ?b @ ''/stats-'' @ datasetType self @ ''.txt''"
    using last_b by (simp add: join2_def)
  show ?thesis
    unfolding statsFile_def os_path_join_def using j1 j2 by simp
qed

lemma translate_nl_plain:
  "CR \<notin> set l \<Longrightarrow> translate_nl l = l"
  by (induction l rule: translate_nl.induct) auto

lemma translate_nl_LF:
  "CR \<notin> set l \<Longrightarrow> translate_nl (l @ LF # rest) = l @ LF # translate_nl rest"
proof (induction l)
  case Nil
  then show ?case by (cases rest) simp_all
next
  case (Cons a l)
  then obtain d cs where "l @ LF # rest = d # cs" by (cases l) auto
  with Cons show ?case by auto
qed

lemma translate_nl_CR:
  "CR \<notin> set l \<Longrightarrow> \<exists>rest'. translate_nl (l @ CR # rest) = l @ LF # rest'"
proof (induction l)
  case Nil
  then show ?case by (cases rest) auto
next
  case (Cons a l)
  then obtain d cs where "l @ CR # rest = d # cs" by (cases l) auto
  with Cons show ?case by auto
qed

lemma lines_from_LF:
  "LF \<notin> set l \<Longrightarrow> lines_from acc (l @ LF # xs) = (acc @ l @ [LF]) # lines_from [] xs"
  by (induction l arbitrary: acc) auto

lemma lines_from_last:
  "LF \<notin> set l \<Longrightarrow> acc @ l \<noteq> [] \<Longrightarrow> lines_from acc l = [acc @ l]"
  by (induction l arbitrary: acc) auto

lemma lines_from_nonempty:
  "acc @ xs \<noteq> [] \<Longrightarrow> lines_from acc xs \<noteq> []"
  by (induction xs arbitrary: acc) auto

lemma translate_nl_nonempty:
  "xs \<noteq> [] \<Longrightarrow> translate_nl xs \<noteq> []"
  by (induction xs rule: translate_nl.induct) auto

lemma readlines_nonempty:
  "c \<noteq> [] \<Longrightarrow> readlines c \<noteq> []"
  by (simp add: readlines_def lines_from_nonempty translate_nl_nonempty)

lemma readlines_empty: "readlines [] = []"
  by (simp add: readlines_def)

lemma readlines_first:
  assumes "LF \<notin> set l" "CR \<notin> set l" "t = LF \<or> t = CR"
  shows "\<exists>ls. readlines (l @ t # rest) = (l @ [LF]) # ls"
proof -
  from assms(2,3) obtain rest' where "translate_nl (l @ t # rest) = l @ LF # rest'"
    using translate_nl_LF [of l rest] translate_nl_CR [of l rest] by auto
  then show ?thesis
    using lines_from_LF [OF assms(1), of "[]" rest'] by (simp add: readlines_def)
qed

lemma readlines_single:
  assumes "LF \<notin> set l" "CR \<notin> set l" "l \<noteq> []"
  shows "readlines l = [l]"
  using assms by (simp add: readlines_def translate_nl_plain lines_from_last)

lemma isspace_LF: "isspace LF"
  by (simp add: isspace_def whitespace_def)

lemma strip_LF: "strip (l @ [LF]) = strip l"
proof (cases "\<forall>c \<in> set l. isspace c")
  case True
  then have d: "dropWhile isspace l = []" "dropWhile isspace (l @ [LF]) = []"
    by (simp_all add: isspace_LF)
  show ?thesis unfolding strip_def d by (rule refl)
next
  case False
  then obtain x where "x \<in> set l" "\<not> isspace x" by blast
  then have "dropWhile isspace (l @ [LF]) = dropWhile isspace l @ [LF]"
    by (rule dropWhile_append1)
  then show ?thesis by (simp add: strip_def isspace_LF)
qed

lemma readStatsFile_first:
  assumes "files w (statsFile self) = Some c" "readlines c = x # xs"
  shows "readStatsFile pf self w = (case pf (strip x) of None \<Rightarrow> Inl ValueError | Some v \<Rightarrow> Inr v)"
  using assms by (simp add: readStatsFile_def Let_def)

text \<open>
  Claim C4. For an algorithm name that does not start with the path separator and a
  version that does not end with one, the stats file is
  \<^verbatim>\<open>output/<algorithm>-<version>/stats-<datasetType>.txt\<close>. When the file's first
  line is \<open>l\<close> (ended by a line feed or a carriage return, with anything after it, or
  being the whole non-empty file), \<^verbatim>\<open>readStatsFile\<close> returns \<^verbatim>\<open>float\<close> of
  \<open>l\<close> stripped of surrounding whitespace, whatever the later lines are.
\<close>

theorem readStatsFile_first_line:
  "(algo self = [] \<or> hd (algo self) \<noteq> sep \<longrightarrow> version self = [] \<or> last (version self) \<noteq> sep \<longrightarrow>
      statsFile self
      = ''output/'' @ algo self @ ''-'' @ version self @ ''/stats-'' @ datasetType self @ ''.txt'')
   \<and> (LF \<notin> set l \<longrightarrow> CR \<notin> set l \<longrightarrow> t = LF \<or> t = CR \<longrightarrow>
        files w (statsFile self) = Some (l @ t # rest) \<longrightarrow>
        readStatsFile pf self w
        = (case pf (strip l) of None \<Rightarrow> Inl ValueError | Some v \<Rightarrow> Inr v))
   \<and> (LF \<notin> set l \<longrightarrow> CR \<notin> set l \<longrightarrow> l \<noteq> [] \<longrightarrow>
        files w (statsFile self) = Some l \<longrightarrow>
        readStatsFile pf self w
        = (case pf (strip l) of None \<Rightarrow> Inl ValueError | Some v \<Rightarrow> Inr v))"
proof (intro conjI impI)
  assume "algo self = [] \<or> hd (algo self) \<noteq> sep" "version self = [] \<or> last (version self) \<noteq> sep"
  then show "statsFile self
      = ''output/'' @ algo self @ ''-'' @ version self @ ''/stats-'' @ datasetType self @ ''.txt''"
    by (rule statsFile_plain)
next
  assume a: "LF \<notin> set l" "CR \<notin> set l" "t = LF \<or> t = CR"
    and f: "files w (statsFile self) = Some (l @ t # rest)"
  from readlines_first [OF a] obtain ls where "readlines (l @ t # rest) = (l @ [LF]) # ls" ..
  from readStatsFile_first [OF f this]
  show "readStatsFile pf self w
        = (case pf (strip l) of None \<Rightarrow> Inl ValueError | Some v \<Rightarrow> Inr v)"
    by (simp add: strip_LF)
next
  assume a: "LF \<notin> set l" "CR \<notin> set l" "l \<noteq> []"
    and f: "files w (statsFile self) = Some l"
  from readStatsFile_first [OF f readlines_single [OF a]]
  show "readStatsFile pf self w
        = (case pf (strip l) of None \<Rightarrow> Inl ValueError | Some v \<Rightarrow> Inr v)" .
qed

text \<open>
  The theorem of C4 at the example of the specification: a first line
  \<^verbatim>\<open>0.9231\<close>, followed by another line or alone.
\<close>

theorem readStatsFile_first_line_witness:
  "statsFile bonsai_p = ''output/bonsai-fixed/stats-testing.txt''
   \<and> readStatsFile float_0_9231 bonsai_p (world_stats (''0.9231'' @ LF # ''0.5'' @ [LF]))
       = Inr (9231 / 10000)
   \<and> readStatsFile float_0_9231 bonsai_p (world_stats ''0.9231'') = Inr (9231 / 10000)"
proof -
  have p: "statsFile bonsai_p = ''output/bonsai-fixed/stats-testing.txt''"
    using readStatsFile_first_line [of bonsai_p "[]" LF world0 "[]" float_0_9231] by (simp add: bonsai_p_def)
  have s: "strip ''0.9231'' = ''0.9231''"
    by (simp add: strip_def isspace_def whitespace_def)
  have f1: "files (world_stats (''0.9231'' @ LF # ''0.5'' @ [LF])) (statsFile bonsai_p)
            = Some (''0.9231'' @ LF # ''0.5'' @ [LF])"
    and f2: "files (world_stats ''0.9231'') (statsFile bonsai_p) = Some ''0.9231''"
    by (simp_all add: p world_stats_def)
  have n: "LF \<notin> set ''0.9231''" "CR \<notin> set ''0.9231''" by simp_all
  have r1: "readStatsFile float_0_9231 bonsai_p (world_stats (''0.9231'' @ LF # ''0.5'' @ [LF]))
            = Inr (9231 / 10000)"
    using readStatsFile_first_line [of bonsai_p "''0.9231''" LF "world_stats (''0.9231'' @ LF # ''0.5'' @ [LF])"
                 "''0.5'' @ [LF]" float_0_9231] n f1 s
    by (simp add: float_0_9231_def)
  have r2: "readStatsFile float_0_9231 bonsai_p (world_stats ''0.9231'') = Inr (9231 / 10000)"
    using readStatsFile_first_line [of bonsai_p "''0.9231''" LF "world_stats ''0.9231''" "[]" float_0_9231] n f2 s
    by (simp add: float_0_9231_def)
  from p r1 r2 show ?thesis by simp
qed

text \<open>
  Claim C5. \<^verbatim>\<open>readStatsFile\<close> raises \<^verbatim>\<open>FileNotFoundError\<close> when the stats file
  is absent (the specification's NotFound); when the file is there it raises
  \<^verbatim>\<open>IndexError\<close> if it is empty and \<^verbatim>\<open>ValueError\<close> if its first line, stripped,
  is not a number (the specification's MalformedStats). Whenever it returns a value,
  the file is there, is not empty, and the value is \<^verbatim>\<open>float\<close> of its stripped first
  line: no other value is ever returned.
\<close>

theorem readStatsFile_errors:
  "(files w (statsFile self) = None \<longrightarrow> readStatsFile pf self w = Inl FileNotFoundError)
   \<and> (files w (statsFile self) = Some [] \<longrightarrow> readStatsFile pf self w = Inl IndexError)
   \<and> (files w (statsFile self) = Some c \<longrightarrow> c \<noteq> [] \<longrightarrow> pf (strip (hd (readlines c))) = None \<longrightarrow>
        readStatsFile pf self w = Inl ValueError)
   \<and> (readStatsFile pf self w = Inr v \<longrightarrow>
        (\<exists>c. files w (statsFile self) = Some c \<and> c \<noteq> [] \<and> pf (strip (hd (readlines c))) = Some v))"
proof (intro conjI impI)
  assume "files w (statsFile self) = None"
  then show "readStatsFile pf self w = Inl FileNotFoundError" by (simp add: readStatsFile_def)
next
  assume "files w (statsFile self) = Some []"
  then show "readStatsFile pf self w = Inl IndexError"
    by (simp add: readStatsFile_def readlines_empty)
next
  assume f: "files w (statsFile self) = Some c" and "c \<noteq> []"
    and n: "pf (strip (hd (readlines c))) = None"
  then obtain x xs where r: "readlines c = x # xs"
    using readlines_nonempty [of c] by (cases "readlines c") auto
  from readStatsFile_first [OF f r, of pf] n r show "readStatsFile pf self w = Inl ValueError"
    by simp
next
  assume ok: "readStatsFile pf self w = Inr v"
  then obtain c where f: "files w (statsFile self) = Some c"
    by (cases "files w (statsFile self)") (auto simp add: readStatsFile_def)
  have ne: "c \<noteq> []"
  proof
    assume "c = []"
    with f ok show False by (simp add: readStatsFile_def readlines_empty)
  qed
  then obtain x xs where r: "readlines c = x # xs"
    using readlines_nonempty [of c] by (cases "readlines c") auto
  from readStatsFile_first [OF f r, of pf] ok have "pf (strip x) = Some v"
    by (cases "pf (strip x)") auto
  with f ne r show "\<exists>c. files w (statsFile self) = Some c \<and> c \<noteq> []
                      \<and> pf (strip (hd (readlines c))) = Some v" by auto
qed

text \<open>The theorem of C5 at an absent file, an empty file and a file that reads \<^verbatim>\<open>n/a\<close>.\<close>

theorem readStatsFile_errors_witness:
  "readStatsFile float_0_9231 bonsai_p world0 = Inl FileNotFoundError
   \<and> readStatsFile float_0_9231 bonsai_p (world_stats []) = Inl IndexError
   \<and> readStatsFile float_0_9231 bonsai_p (world_stats ''n/a'') = Inl ValueError"
proof -
  have p: "statsFile bonsai_p = ''output/bonsai-fixed/stats-testing.txt''"
    by (simp add: statsFile_def os_path_join_def join2_def bonsai_p_def)
  have f0: "files world0 (statsFile bonsai_p) = None" by (simp add: world0_def)
  have f1: "files (world_stats []) (statsFile bonsai_p) = Some []"
    and f2: "files (world_stats ''n/a'') (statsFile bonsai_p) = Some ''n/a''"
    by (simp_all add: p world_stats_def)
  have n: "float_0_9231 (strip (hd (readlines ''n/a''))) = None"
    by (simp add: readlines_def strip_def isspace_def whitespace_def float_0_9231_def)
  from readStatsFile_errors [of world0 bonsai_p float_0_9231] f0
  have a: "readStatsFile float_0_9231 bonsai_p world0 = Inl FileNotFoundError" by blast
  from readStatsFile_errors [of "world_stats []" bonsai_p float_0_9231] f1
  have b: "readStatsFile float_0_9231 bonsai_p (world_stats []) = Inl IndexError" by blast
  from readStatsFile_errors [of "world_stats ''n/a''" bonsai_p float_0_9231 "''n/a''"] f2 n
  have c: "readStatsFile float_0_9231 bonsai_p (world_stats ''n/a'') = Inl ValueError" by simp
  from a b c show ?thesis by simp
qed


subsection \<open>Toolchain lookup and bit-width derivation\<close>

lemma checkMSBuildPath_loop_eq:
  "checkMSBuildPath_loop isfile ps (found, c) =
     (found \<or> (\<exists>p \<in> set ps. isfile p),
      (if filter isfile ps = [] then c
       else c\<lparr>msbuildPath_cfg := Some (last (filter isfile ps))\<rparr>))"
  by (induction ps arbitrary: found c) auto

lemma last_filter_split:
  "filter P xs \<noteq> [] \<Longrightarrow>
   \<exists>pre post. xs = pre @ last (filter P xs) # post \<and> P (last (filter P xs)) \<and> (\<forall>p \<in> set post. \<not> P p)"
proof (induction xs rule: rev_induct)
  case Nil
  then show ?case by simp
next
  case (snoc x xs)
  show ?case
  proof (cases "P x")
    case True
    then have "xs @ [x] = xs @ last (filter P (xs @ [x])) # []" by simp
    with True show ?thesis by (metis empty_iff list.set(1) filter_append filter.simps last_snoc append_Nil2)
  next
    case False
    with snoc.prems have ne: "filter P xs \<noteq> []" by simp
    from snoc.IH [OF ne] obtain pre post where
      "xs = pre @ last (filter P xs) # post" "P (last (filter P xs))" "\<forall>p \<in> set post. \<not> P p"
      by blast
    with False have "xs @ [x] = pre @ last (filter P (xs @ [x])) # (post @ [x])
                     \<and> P (last (filter P (xs @ [x]))) \<and> (\<forall>p \<in> set (post @ [x]). \<not> P p)"
      by simp
    then show ?thesis by blast
  qed
qed

text \<open>
  Claim C3, as the code has it. \<^verbatim>\<open>checkMSBuildPath\<close> walks the whole ordered list
  of candidates without stopping at a match; whenever at least one candidate is a
  file it returns normally and \<^verbatim>\<open>config.msbuildPath\<close> is the last candidate of the
  list that is a file: that candidate is a file and no candidate after it is.
\<close>

theorem checkMSBuildPath_last_existing:
  assumes "\<exists>p \<in> set (msbuildPathOptions c). isfile p"
  shows "fst (checkMSBuildPath isfile c) = None
       \<and> msbuildPath_cfg (snd (checkMSBuildPath isfile c))
           = Some (last (filter isfile (msbuildPathOptions c)))
       \<and> (\<exists>pre post. msbuildPathOptions c
              = pre @ last (filter isfile (msbuildPathOptions c)) # post
            \<and> isfile (last (filter isfile (msbuildPathOptions c)))
            \<and> (\<forall>p \<in> set post. \<not> isfile p))"
proof -
  from assms have ne: "filter isfile (msbuildPathOptions c) \<noteq> []"
    by (simp add: filter_empty_conv)
  from assms ne have "fst (checkMSBuildPath isfile c) = None"
    and "msbuildPath_cfg (snd (checkMSBuildPath isfile c))
           = Some (last (filter isfile (msbuildPathOptions c)))"
    by (simp_all add: checkMSBuildPath_def checkMSBuildPath_loop_eq)
  with last_filter_split [OF ne] show ?thesis by simp
qed

text \<open>
  Claim C3 as stated fails: with two candidates that both exist, the earliest
  existing one is the first, and the resolved path is the second.
\<close>

theorem checkMSBuildPath_first_counterexample:
  "hd (filter every_file (msbuildPathOptions (config_two 16))) = ''C:/VS/2017/MSBuild.exe''
   \<and> msbuildPath_cfg (snd (checkMSBuildPath every_file (config_two 16)))
       = Some ''C:/VS/2019/MSBuild.exe''"
  by (simp add: checkMSBuildPath_def config_two_def every_file_def)

text \<open>The theorem of C3 at two candidates that both exist.\<close>

theorem checkMSBuildPath_last_existing_witness:
  "(\<exists>p \<in> set (msbuildPathOptions (config_two 16)). every_file p)
   \<and> checkMSBuildPath every_file (config_two 16)
       = (None, (config_two 16)\<lparr>msbuildPath_cfg := Some ''C:/VS/2019/MSBuild.exe''\<rparr>)"
proof -
  have h: "\<exists>p \<in> set (msbuildPathOptions (config_two 16)). every_file p"
    by (auto simp add: every_file_def config_two_def)
  have f: "filter every_file (msbuildPathOptions (config_two 16)) = msbuildPathOptions (config_two 16)"
    by (simp add: every_file_def)
  from checkMSBuildPath_last_existing [OF h] f
  have "msbuildPath_cfg (snd (checkMSBuildPath every_file (config_two 16)))
          = Some ''C:/VS/2019/MSBuild.exe''"
    by (simp add: config_two_def)
  moreover have "checkMSBuildPath every_file (config_two 16)
       = (None, (config_two 16)\<lparr>msbuildPath_cfg := Some ''C:/VS/2019/MSBuild.exe''\<rparr>)"
    by (simp add: checkMSBuildPath_def config_two_def every_file_def)
  ultimately show ?thesis using h by simp
qed

lemma run_driver_stopped:
  assumes "win" and "\<forall>p \<in> set (msbuildPathOptions c). \<not> isfile p"
  shows "fst (run_driver M isfile win e c a s) \<noteq> None"
    and "snd (run_driver M isfile win e c a s) = (c, s)"
    and "setLogLevel e a = None \<Longrightarrow>
         run_driver M isfile win e c a s = (Some (Exception_msbuild (msbuildPathOptions c)), c, s)"
proof -
  from assms(2) have "filter isfile (msbuildPathOptions c) = []"
    by (simp add: filter_empty_conv)
  with assms have chk: "checkMSBuildPath isfile c = (Some (Exception_msbuild (msbuildPathOptions c)), c)"
    by (simp add: checkMSBuildPath_def checkMSBuildPath_loop_eq)
  show "fst (run_driver M isfile win e c a s) \<noteq> None"
    using assms(1) chk by (cases "setLogLevel e a") (simp_all add: run_driver_def)
  show "snd (run_driver M isfile win e c a s) = (c, s)"
    using assms(1) chk by (cases "setLogLevel e a") (simp_all add: run_driver_def)
  show "run_driver M isfile win e c a s = (Some (Exception_msbuild (msbuildPathOptions c)), c, s)"
    if "setLogLevel e a = None"
    using assms(1) chk that by (simp add: run_driver_def)
qed

text \<open>
  Claim C6. On the host where \<^verbatim>\<open>MainDriver.run\<close> makes the lookup (Windows), if no
  candidate is a file and the log level was accepted, \<^verbatim>\<open>run\<close> raises the exception
  that carries the whole candidate list and the state is untouched: no \<^verbatim>\<open>Main\<close>
  was run, so no configuration was processed and no build was started. Whatever the
  log level is, \<^verbatim>\<open>run\<close> raises and leaves the configuration and the state as they
  were.
\<close>

theorem no_candidate_raises_before_sweep:
  "(win \<longrightarrow> (\<forall>p \<in> set (msbuildPathOptions c). \<not> isfile p) \<longrightarrow> setLogLevel e a = None \<longrightarrow>
      run_driver M isfile win e c a s = (Some (Exception_msbuild (msbuildPathOptions c)), c, s))
   \<and> (win \<longrightarrow> (\<forall>p \<in> set (msbuildPathOptions c). \<not> isfile p) \<longrightarrow>
        fst (run_driver M isfile win e c a s) \<noteq> None
        \<and> snd (run_driver M isfile win e c a s) = (c, s))"
  using run_driver_stopped [where win = win and c = c and isfile = isfile and M = M and e = e
      and a = a and s = s]
  by blast

text \<open>The theorem of C6 on a Windows host where neither of two candidates exists.\<close>

theorem no_candidate_raises_before_sweep_witness:
  "filter no_file (msbuildPathOptions (config_two 16)) = []
   \<and> setLogLevel Map.empty (parseArgs (args1 False)) = None
   \<and> run_driver main_ok no_file True Map.empty (config_two 16) (parseArgs (args1 False)) dstate0
       = (Some (Exception_msbuild [''C:/VS/2017/MSBuild.exe'', ''C:/VS/2019/MSBuild.exe'']),
          config_two 16, dstate0)"
proof -
  have h: "\<forall>p \<in> set (msbuildPathOptions (config_two 16)). \<not> no_file p"
    by (simp add: no_file_def)
  have l: "setLogLevel Map.empty (parseArgs (args1 False)) = None"
    by (simp add: setLogLevel_def parseArgs_def args1_def upper_def levelNames_def)
  from no_candidate_raises_before_sweep
         [of True "config_two 16" no_file Map.empty "parseArgs (args1 False)" main_ok dstate0] h l
  have "run_driver main_ok no_file True Map.empty (config_two 16) (parseArgs (args1 False)) dstate0
       = (Some (Exception_msbuild (msbuildPathOptions (config_two 16))), config_two 16, dstate0)"
    by blast
  with l show ?thesis by (simp add: config_two_def no_file_def)
qed

lemma runPoint_rejected:
  "deriveBitwidth c a (fst (snd it)) (bitwidth s) = Inl e \<Longrightarrow>
   runPoint M c a it s = (Some e, s\<lparr>printed := printed s @ banner it\<rparr>)"
  by (simp add: runPoint_def Let_def)

lemma runPoint_proceeds:
  "deriveBitwidth c a (fst (snd it)) (bitwidth s) = Inr b \<Longrightarrow>
   fst (runPoint M c a it s) = fst (M (toMain a it) (outside s))
   \<and> started (snd (runPoint M c a it s)) = started s @ [toMain a it]
   \<and> outside (snd (runPoint M c a it s)) = snd (M (toMain a it) (outside s))
   \<and> bitwidth (snd (runPoint M c a it s)) = b"
  by (simp add: runPoint_def Let_def split: prod.splits)

text \<open>
  Claim C8, as the code has it. The derivation reads the point's encoding and the
  global \<^verbatim>\<open>config.wordLength\<close>. Encoding \<^verbatim>\<open>float\<close> derives \<^verbatim>\<open>float\<close>; any other
  encoding derives \<^verbatim>\<open>int8\<close>, \<^verbatim>\<open>int16\<close>, \<^verbatim>\<open>int32\<close> for a word length of 8, 16,
  32, and the variable \<^verbatim>\<open>bitwidth\<close> holds the derived tag. For any other word length
  the derivation fails: with the load-sf flag set the point is rejected by
  \<^verbatim>\<open>AssertionError\<close> before \<^verbatim>\<open>Main\<close> is run; with the flag unset the failure is
  swallowed, \<^verbatim>\<open>bitwidth\<close> keeps the value it had (the previous point's tag, or
  unbound), and \<^verbatim>\<open>Main\<close> is run on the point.
\<close>

theorem deriveBitwidth_cases:
  "deriveBitwidth c a Encoding_floatt prev = Inr (Some ''float'')
   \<and> Encoding_floatt = ''float''
   \<and> (enc \<noteq> Encoding_floatt \<longrightarrow> wordLength c = 8 \<longrightarrow>
        deriveBitwidth c a enc prev = Inr (Some ''int8''))
   \<and> (enc \<noteq> Encoding_floatt \<longrightarrow> wordLength c = 16 \<longrightarrow>
        deriveBitwidth c a enc prev = Inr (Some ''int16''))
   \<and> (enc \<noteq> Encoding_floatt \<longrightarrow> wordLength c = 32 \<longrightarrow>
        deriveBitwidth c a enc prev = Inr (Some ''int32''))
   \<and> (fst (snd it) \<noteq> Encoding_floatt \<longrightarrow> wordLength c \<notin> {8, 16, 32} \<longrightarrow> load_sf a \<longrightarrow>
        deriveBitwidth c a (fst (snd it)) (bitwidth s) = Inl AssertionError
        \<and> fst (runPoint M c a it s) = Some AssertionError
        \<and> started (snd (runPoint M c a it s)) = started s
        \<and> outside (snd (runPoint M c a it s)) = outside s
        \<and> bitwidth (snd (runPoint M c a it s)) = bitwidth s)
   \<and> (fst (snd it) \<noteq> Encoding_floatt \<longrightarrow> wordLength c \<notin> {8, 16, 32} \<longrightarrow> \<not> load_sf a \<longrightarrow>
        deriveBitwidth c a (fst (snd it)) (bitwidth s) = Inr (bitwidth s)
        \<and> fst (runPoint M c a it s) = fst (M (toMain a it) (outside s))
        \<and> started (snd (runPoint M c a it s)) = started s @ [toMain a it]
        \<and> outside (snd (runPoint M c a it s)) = snd (M (toMain a it) (outside s))
        \<and> bitwidth (snd (runPoint M c a it s)) = bitwidth s)
   \<and> (deriveBitwidth c a (fst (snd it)) (bitwidth s) = Inr tag \<longrightarrow>
        bitwidth (snd (runPoint M c a it s)) = tag)"
proof -
  have tags: "deriveBitwidth c a Encoding_floatt prev = Inr (Some ''float'')"
    "Encoding_floatt = ''float''"
    "enc \<noteq> Encoding_floatt \<longrightarrow> wordLength c = 8 \<longrightarrow>
        deriveBitwidth c a enc prev = Inr (Some ''int8'')"
    "enc \<noteq> Encoding_floatt \<longrightarrow> wordLength c = 16 \<longrightarrow>
        deriveBitwidth c a enc prev = Inr (Some ''int16'')"
    "enc \<noteq> Encoding_floatt \<longrightarrow> wordLength c = 32 \<longrightarrow>
        deriveBitwidth c a enc prev = Inr (Some ''int32'')"
    by (simp_all add: deriveBitwidth_def Encoding_floatt_def)
  have rejected: "deriveBitwidth c a (fst (snd it)) (bitwidth s) = Inl AssertionError
        \<and> fst (runPoint M c a it s) = Some AssertionError
        \<and> started (snd (runPoint M c a it s)) = started s
        \<and> outside (snd (runPoint M c a it s)) = outside s
        \<and> bitwidth (snd (runPoint M c a it s)) = bitwidth s"
    if "fst (snd it) \<noteq> Encoding_floatt" "wordLength c \<notin> {8, 16, 32}" "load_sf a"
  proof -
    from that have d: "deriveBitwidth c a (fst (snd it)) (bitwidth s) = Inl AssertionError"
      by (simp add: deriveBitwidth_def)
    from runPoint_rejected [OF d, of M] d show ?thesis by simp
  qed
  have swallowed: "deriveBitwidth c a (fst (snd it)) (bitwidth s) = Inr (bitwidth s)
        \<and> fst (runPoint M c a it s) = fst (M (toMain a it) (outside s))
        \<and> started (snd (runPoint M c a it s)) = started s @ [toMain a it]
        \<and> outside (snd (runPoint M c a it s)) = snd (M (toMain a it) (outside s))
        \<and> bitwidth (snd (runPoint M c a it s)) = bitwidth s"
    if "fst (snd it) \<noteq> Encoding_floatt" "wordLength c \<notin> {8, 16, 32}" "\<not> load_sf a"
  proof -
    from that have d: "deriveBitwidth c a (fst (snd it)) (bitwidth s) = Inr (bitwidth s)"
      by (simp add: deriveBitwidth_def)
    from runPoint_proceeds [OF d, of M] d show ?thesis by simp
  qed
  have kept: "bitwidth (snd (runPoint M c a it s)) = tag"
    if "deriveBitwidth c a (fst (snd it)) (bitwidth s) = Inr tag"
    using runPoint_proceeds [OF that, of M] by simp
  from tags rejected swallowed kept show ?thesis by blast
qed

text \<open>
  Claim C8 as stated fails: with \<^verbatim>\<open>config.wordLength\<close> 64, encoding \<^verbatim>\<open>fixed\<close>
  and the load-sf flag unset, no tag is derived and the point is not rejected:
  \<^verbatim>\<open>Main\<close> is run on it.
\<close>

theorem bitwidth_failure_swallowed:
  "deriveBitwidth (config_two 64) (parseArgs (args1 False)) ''fixed'' None = Inr None
   \<and> fst (runPoint main_ok (config_two 64) (parseArgs (args1 False)) point1 dstate0) = None
   \<and> map m_encoding (started (snd (runPoint main_ok (config_two 64) (parseArgs (args1 False)) point1 dstate0)))
       = [''fixed'']
   \<and> outside (snd (runPoint main_ok (config_two 64) (parseArgs (args1 False)) point1 dstate0))
       = [''bonsai'']"
  by (simp add: runPoint_def deriveBitwidth_def Encoding_floatt_def config_two_def parseArgs_def
      args1_def main_ok_def dstate0_def toMain_def point1_def Let_def)

text \<open>
  The theorem of C8 at word length 16, and at word length 64 with the load-sf flag
  set and unset, there from an unbound \<^verbatim>\<open>bitwidth\<close> and from one left at
  \<^verbatim>\<open>float\<close> by an earlier point.
\<close>

theorem deriveBitwidth_cases_witness:
  "deriveBitwidth (config_two 16) (parseArgs (args1 False)) ''fixed'' None = Inr (Some ''int16'')
   \<and> fst (runPoint main_ok (config_two 64) (parseArgs (args1 True)) point1 dstate0) = Some AssertionError
   \<and> started (snd (runPoint main_ok (config_two 64) (parseArgs (args1 True)) point1 dstate0)) = []
   \<and> outside (snd (runPoint main_ok (config_two 64) (parseArgs (args1 True)) point1 dstate0)) = []
   \<and> started (snd (runPoint main_ok (config_two 64) (parseArgs (args1 False)) point1 dstate0))
       = [toMain (parseArgs (args1 False)) point1]
   \<and> outside (snd (runPoint main_ok (config_two 64) (parseArgs (args1 False)) point1 dstate0))
       = [''bonsai'']
   \<and> bitwidth (snd (runPoint main_ok (config_two 64) (parseArgs (args1 False)) point1 dstate0)) = None
   \<and> bitwidth (snd (runPoint main_ok (config_two 64) (parseArgs (args1 False)) point1
                       (dstate0\<lparr>bitwidth := Some ''float''\<rparr>))) = Some ''float''"
proof -
  have e: "''fixed'' \<noteq> Encoding_floatt" "fst (snd point1) \<noteq> Encoding_floatt"
    by (simp_all add: Encoding_floatt_def point1_def)
  have w16: "wordLength (config_two 16) = 16" and w64: "wordLength (config_two 64) \<notin> {8, 16, 32}"
    by (simp_all add: config_two_def)
  have l: "load_sf (parseArgs (args1 True))" "\<not> load_sf (parseArgs (args1 False))"
    by (simp_all add: parseArgs_def args1_def)
  have s0: "started dstate0 = []" "outside dstate0 = []" "bitwidth dstate0 = None"
    "bitwidth (dstate0\<lparr>bitwidth := Some ''float''\<rparr>) = Some ''float''"
    by (simp_all add: dstate0_def)
  have m: "snd (main_ok (toMain (parseArgs (args1 False)) point1) []) = [''bonsai'']"
    by (simp add: main_ok_def toMain_def point1_def Let_def)
  from deriveBitwidth_cases [of "config_two 16" "parseArgs (args1 False)" None "''fixed''"] e w16
  have a: "deriveBitwidth (config_two 16) (parseArgs (args1 False)) ''fixed'' None = Inr (Some ''int16'')"
    by blast
  from deriveBitwidth_cases [of "config_two 64" "parseArgs (args1 True)" None "''fixed''" point1 dstate0 main_ok]
    e w64 l
  have b: "fst (runPoint main_ok (config_two 64) (parseArgs (args1 True)) point1 dstate0) = Some AssertionError"
    "started (snd (runPoint main_ok (config_two 64) (parseArgs (args1 True)) point1 dstate0)) = started dstate0"
    "outside (snd (runPoint main_ok (config_two 64) (parseArgs (args1 True)) point1 dstate0)) = outside dstate0"
    by blast+
  from deriveBitwidth_cases [of "config_two 64" "parseArgs (args1 False)" None "''fixed''" point1 dstate0 main_ok]
    e w64 l
  have c: "started (snd (runPoint main_ok (config_two 64) (parseArgs (args1 False)) point1 dstate0))
       = started dstate0 @ [toMain (parseArgs (args1 False)) point1]"
    "outside (snd (runPoint main_ok (config_two 64) (parseArgs (args1 False)) point1 dstate0))
       = snd (main_ok (toMain (parseArgs (args1 False)) point1) (outside dstate0))"
    "bitwidth (snd (runPoint main_ok (config_two 64) (parseArgs (args1 False)) point1 dstate0))
       = bitwidth dstate0"
    by blast+
  from deriveBitwidth_cases [of "config_two 64" "parseArgs (args1 False)" None "''fixed''" point1
                                "dstate0\<lparr>bitwidth := Some ''float''\<rparr>" main_ok]
    e w64 l
  have d: "bitwidth (snd (runPoint main_ok (config_two 64) (parseArgs (args1 False)) point1
                       (dstate0\<lparr>bitwidth := Some ''float''\<rparr>)))
           = bitwidth (dstate0\<lparr>bitwidth := Some ''float''\<rparr>)"
    by blast
  from a b c d s0 m show ?thesis by simp
qed

subsection \<open>The sweep\<close>













end
